theory Spec2Isabelle
  imports Complex_Main "HOL-Library.Word"
begin

unbundle bit_operations_syntax

section \<open>Machine types\<close>

type_synonym u8 = "8 word"
type_synonym u16 = "16 word"
type_synonym u32 = "32 word"

section \<open>CRC-32 (robust\_file\_io.cc)\<close>






text \<open>The bytes of an ASCII string, as the code receives them.\<close>

definition bytes_of :: "string \<Rightarrow> u8 list" where
  "bytes_of s = map (\<lambda>c. of_nat (of_char c)) s"

section \<open>Robust file reader (robust\_file\_io.h, robust\_file\_io.cc)\<close>

datatype IOErrorType = Success | FileNotFound | AccessDenied | ReadError | WriteError
  | CorruptedData | DeviceNotReady | DeviceRemoved | Timeout | InterferenceDetected
  | ChecksumMismatch | PartialRead | Unknown

record IOResult =
  error :: IOErrorType
  message :: string
  bytes_processed :: nat
  retry_count :: int
  recovered :: bool

definition IsSuccess :: "IOResult \<Rightarrow> bool" where
  "IsSuccess r = (error r = Success)"

definition RequiresRetry :: "IOResult \<Rightarrow> bool" where
  "RequiresRetry r =
     (error r = ReadError \<or> error r = DeviceNotReady \<or> error r = InterferenceDetected \<or>
      error r = Timeout \<or> error r = PartialRead)"

record RobustIOConfig =
  max_retries :: int
  retry_delay_ms :: int
  exponential_backoff :: bool
  verify_checksum :: bool
  verify_file_size :: bool
  read_chunk_size :: nat
  buffer_size :: nat
  detect_interference :: bool
  interference_threshold_ms :: int
  fail_fast :: bool
  log_errors :: bool

text \<open>The default member initialisers of \<^verbatim>\<open>RobustIOConfig\<close>.\<close>

definition default_config :: RobustIOConfig where
  "default_config =
     \<lparr> max_retries = 5, retry_delay_ms = 100, exponential_backoff = True,
       verify_checksum = True, verify_file_size = True,
       read_chunk_size = 1024 * 1024, buffer_size = 4096 * 1024,
       detect_interference = True, interference_threshold_ms = 500,
       fail_fast = False, log_errors = True \<rparr>"

record RobustFileReader =
  config :: RobustIOConfig
  total_retries :: int
  interference_count :: int
  recovered_errors :: int

text \<open>
  The members of \<^verbatim>\<open>RobustIOConfig\<close> and the counters are C++ \<^verbatim>\<open>int\<close>s. They are
  modelled as \<^typ>\<open>int\<close>; where the source multiplies and shifts
  (\<^verbatim>\<open>WaitBeforeRetry\<close>) the 32-bit two's complement wrap-around is written out
  with \<open>int32\<close>, and the theorems about the delay assume the range in which the C++
  arithmetic does not overflow. The loop counter \<^verbatim>\<open>retry\<close> and the statistics
  counters only count up by one from zero and are left unwrapped.
\<close>

definition int32 :: "int \<Rightarrow> int" where
  "int32 x = (x + 2 ^ 31) mod 2 ^ 32 - 2 ^ 31"

text \<open>An \<^verbatim>\<open>int\<close> converted to \<^verbatim>\<open>uint64_t\<close> for a mixed comparison.\<close>

definition u64_of_int :: "int \<Rightarrow> nat" where
  "u64_of_int x = nat (x mod 2 ^ 64)"

text \<open>
  \<^verbatim>\<open>DetectInterference\<close>. The source computes the expected time in \<^verbatim>\<open>double\<close>; the
  model computes it in the reals. Durations and byte counts are unsigned and modelled
  as \<^typ>\<open>nat\<close>.
\<close>

definition DetectInterference :: "RobustFileReader \<Rightarrow> nat \<Rightarrow> nat \<Rightarrow> bool" where
  "DetectInterference rd read_time_ms bytes_read =
     (if \<not> detect_interference (config rd) then False
      else
        let expected_time_ms = (real bytes_read / (100 * 1024 * 1024)) * 1000 in
        if real read_time_ms > expected_time_ms * 5 \<and>
           read_time_ms > u64_of_int (interference_threshold_ms (config rd))
        then True
        else False)"

text \<open>
  What the reader does to the outside world during \<^verbatim>\<open>ReadWithRetry\<close>: it opens the
  file (\<open>opens\<close> counts the \<^verbatim>\<open>std::ifstream\<close> constructions so far) and it sleeps
  (\<open>slept\<close> lists the arguments of \<^verbatim>\<open>sleep_for\<close> in milliseconds, oldest first).
\<close>

record io_world =
  opens :: nat
  slept :: "int list"

definition WaitBeforeRetry :: "RobustFileReader \<Rightarrow> int \<Rightarrow> io_world \<Rightarrow> io_world" where
  "WaitBeforeRetry rd retry_no w =
     (let delay_ms = retry_delay_ms (config rd);
          delay_ms =
            (if exponential_backoff (config rd)
             then min (int32 (retry_delay_ms (config rd) *
                               int32 (2 ^ nat (retry_no - 1)))) 5000
             else delay_ms)
      in w\<lparr>slept := slept w @ [delay_ms]\<rparr>)"

text \<open>
  What the file system answers to one attempt of \<^verbatim>\<open>ReadWithRetry\<close>: the file does
  not open; or it opens with size \<open>file_size\<close> and the read takes \<open>duration\<close>
  milliseconds, leaves the stream flags \<open>good\<close> and \<open>eof\<close> and reports \<open>gcount\<close>
  bytes; or an exception with text \<open>what\<close> is thrown inside the \<^verbatim>\<open>try\<close> block.
  The bytes stored into \<^verbatim>\<open>data\<close> are not modelled: no field of the result depends
  on them.
\<close>

datatype attempt = OpenFails | Reads nat nat bool bool nat | Throws string

text \<open>Decimal rendering of a number, as \<^verbatim>\<open>fmt::format("{}", n)\<close> prints it.\<close>

function dec :: "nat \<Rightarrow> string" where
  "dec n = (if n < 10 then [''0123456789'' ! n]
            else dec (n div 10) @ [''0123456789'' ! (n mod 10)])"
  by pat_completeness auto
termination
  by (relation "measure id") auto

text \<open>
  The \<^verbatim>\<open>for\<close> loop of \<^verbatim>\<open>ReadWithRetry\<close>, from the test \<^verbatim>\<open>retry <= max_retries\<close> on.
  \<open>src k\<close> is the answer of the file system to the \<open>k\<close>-th opening of the file.
  Every \<^verbatim>\<open>continue\<close> and the end of the \<^verbatim>\<open>catch\<close> block go to the next iteration
  with \<^verbatim>\<open>retry + 1\<close>.
\<close>

function ReadWithRetry_loop ::
  "(nat \<Rightarrow> attempt) \<Rightarrow> int \<Rightarrow> IOResult \<Rightarrow> RobustFileReader \<Rightarrow> io_world
     \<Rightarrow> IOResult \<times> RobustFileReader \<times> io_world"
where
  "ReadWithRetry_loop src retry last_result rd w =
     (if retry \<le> max_retries (config rd) then
        let (rd, w) =
              (if retry > 0
               then (rd\<lparr>total_retries := total_retries rd + 1\<rparr>,
                     WaitBeforeRetry rd retry w)
               else (rd, w));
            a = src (opens w);
            w = w\<lparr>opens := opens w + 1\<rparr>
        in
        case a of
          OpenFails \<Rightarrow>
            ReadWithRetry_loop src (retry + 1)
              \<lparr>error = FileNotFound, message = ''Could not open file'',
               bytes_processed = 0, retry_count = retry, recovered = False\<rparr> rd w
        | Reads file_size duration good eof gcount \<Rightarrow>
            if \<not> good \<and> \<not> eof then
              let last_result =
                    \<lparr>error = ReadError, message = ''Read operation failed'',
                     bytes_processed = 0, retry_count = retry, recovered = False\<rparr>;
                  (rd, last_result) =
                    (if DetectInterference rd duration file_size
                     then (rd\<lparr>interference_count := interference_count rd + 1\<rparr>,
                           last_result\<lparr>error := InterferenceDetected\<rparr>)
                     else (rd, last_result))
              in ReadWithRetry_loop src (retry + 1) last_result rd w
            else if gcount \<noteq> file_size then
              ReadWithRetry_loop src (retry + 1)
                \<lparr>error = PartialRead,
                 message = ''Read '' @ dec gcount @ '' of '' @ dec file_size @ '' bytes'',
                 bytes_processed = gcount, retry_count = retry, recovered = False\<rparr> rd w
            else
              (\<lparr>error = Success, message = ''File read successfully'',
                bytes_processed = gcount, retry_count = retry, recovered = (retry > 0)\<rparr>,
               (if retry > 0 then rd\<lparr>recovered_errors := recovered_errors rd + 1\<rparr>
                else rd),
               w)
        | Throws what \<Rightarrow>
            ReadWithRetry_loop src (retry + 1)
              \<lparr>error = Unknown, message = what,
               bytes_processed = 0, retry_count = retry, recovered = False\<rparr> rd w
      else (last_result, rd, w))"
  by pat_completeness auto
termination
  by (relation "measure (\<lambda>(src, retry, last_result, rd, w).
        nat (max_retries (config rd) + 1 - retry))")
     (auto split: if_splits)

text \<open>
  \<^verbatim>\<open>ReadWithRetry\<close>: the loop from \<^verbatim>\<open>retry = 0\<close>. \<^verbatim>\<open>IOResult last_result;\<close> is
  default-initialised, so its scalar members are indeterminate: \<open>uninit\<close> stands for
  that value. It is returned only when the loop body never runs.
\<close>

definition ReadWithRetry ::
  "(nat \<Rightarrow> attempt) \<Rightarrow> IOResult \<Rightarrow> RobustFileReader \<Rightarrow> io_world
     \<Rightarrow> IOResult \<times> RobustFileReader \<times> io_world" where
  "ReadWithRetry src uninit rd w = ReadWithRetry_loop src 0 uninit rd w"

subsection \<open>Interference detector\<close>






subsection \<open>Chunked read\<close>








section \<open>Disc image device (disc\_image\_device.cc)\<close>

datatype Error = kSuccess | kErrorFileMismatch | kErrorDamagedFile | kErrorReadError
  | kErrorOutOfMemory

text \<open>
  \<^verbatim>\<open>ParseState\<close>. \<open>ptr\<close> is the mapped view of the image as the code sees it
  through the raw pointer: \<open>ptr st i\<close> is the byte at address \<^verbatim>\<open>state->ptr + i\<close>.
  The first \<open>size_ps st\<close> bytes are the file; the code also reads behind them in
  places, without a check, and the model then reads \<open>ptr\<close> there as well. The other
  members are \<^verbatim>\<open>size_t\<close>; with 64 bits none of the sums and products below can wrap
  (a sector number is below \<open>2 ^ 32\<close>), so they are natural numbers.
\<close>

record ParseState =
  ptr :: "nat \<Rightarrow> u8"
  size_ps :: nat
  game_offset :: nat
  root_sector :: nat
  root_offset :: nat
  root_size :: nat

definition kXESectorSize :: nat where
  "kXESectorSize = 2048"

text \<open>
  Modelled from the spec: \<^verbatim>\<open>xe::load\<close> is declared in xenia/base/memory.h, which is
  not among the sources. The spec's format table gives every multi-byte integer as
  big-endian.
\<close>

definition load_u8 :: "ParseState \<Rightarrow> nat \<Rightarrow> u8" where
  "load_u8 st p = ptr st p"

definition load_u16 :: "ParseState \<Rightarrow> nat \<Rightarrow> u16" where
  "load_u16 st p = push_bit 8 (ucast (ptr st p)) OR ucast (ptr st (p + 1))"

definition load_u32 :: "ParseState \<Rightarrow> nat \<Rightarrow> u32" where
  "load_u32 st p =
     push_bit 24 (ucast (ptr st p)) OR push_bit 16 (ucast (ptr st (p + 1))) OR
     push_bit 8 (ucast (ptr st (p + 2))) OR ucast (ptr st (p + 3))"

subsection \<open>Verify\<close>

definition likely_offsets :: "nat list" where
  "likely_offsets = [0x00000000, 0x0000FB20, 0x00020600, 0x02080000, 0x0FD90000]"

definition magic :: "u8 list" where
  "magic = bytes_of ''MICROSOFT*XBOX*MEDIA''"

text \<open>\<^verbatim>\<open>VerifyMagic\<close>: the \<^verbatim>\<open>memcmp\<close> compares the 20 bytes from \<^verbatim>\<open>ptr + offset\<close> on.\<close>

definition VerifyMagic :: "ParseState \<Rightarrow> nat \<Rightarrow> bool" where
  "VerifyMagic st offset =
     (if offset \<ge> size_ps st then False
      else map (\<lambda>i. ptr st (offset + i)) [0..<20] = magic)"

text \<open>
  The \<^verbatim>\<open>for\<close> loop of \<^verbatim>\<open>Verify\<close> over the candidates still to try. It returns
  \<^verbatim>\<open>magic_found\<close> and the state, whose \<open>game_offset\<close> is the last candidate tried.
\<close>

fun find_magic :: "ParseState \<Rightarrow> nat list \<Rightarrow> bool \<times> ParseState" where
  "find_magic st [] = (False, st)"
| "find_magic st (c # cs) =
     (let st = st\<lparr>game_offset := c\<rparr>;
          magic_offset = game_offset st + (32 * kXESectorSize)
      in if VerifyMagic st magic_offset then (True, st) else find_magic st cs)"

definition Verify :: "ParseState \<Rightarrow> Error \<times> ParseState" where
  "Verify st0 =
     (case find_magic st0 likely_offsets of
        (magic_found, st) \<Rightarrow>
          if \<not> magic_found then (kErrorFileMismatch, st)
          else if size_ps st < game_offset st + (32 * kXESectorSize)
          then (kErrorReadError, st)
          else
            let fs_ptr = game_offset st + (32 * kXESectorSize);
                st = st\<lparr>root_sector := unat (load_u32 st (fs_ptr + 20))\<rparr>;
                st = st\<lparr>root_size := unat (load_u32 st (fs_ptr + 24))\<rparr>;
                st = st\<lparr>root_offset := game_offset st + (root_sector st * kXESectorSize)\<rparr>
            in
            if root_size st < 13 \<or> root_size st > 32 * 1024 * 1024
            then (kErrorDamagedFile, st)
            else if root_offset st \<ge> size_ps st then (kErrorDamagedFile, st)
            else if root_offset st + root_size st > size_ps st then (kErrorDamagedFile, st)
            else (kSuccess, st))"

subsection \<open>Entries\<close>

text \<open>
  Modelled from the spec: the attribute flags are declared in xenia/vfs/entry.h, which
  is not among the sources. The spec's record layout gives the directory flag as the bit
  0x10. It does not give the read-only flag; \<open>kFileAttributeReadOnly\<close> is taken as
  the bit 0x01, the value of the file attribute of that name, and no property below
  depends on which bit it is.
\<close>

definition kFileAttributeReadOnly :: u32 where
  "kFileAttributeReadOnly = 0x0001"

definition kFileAttributeDirectory :: u32 where
  "kFileAttributeDirectory = 0x0010"

text \<open>
  Modelled from the spec: \<^verbatim>\<open>xe::round_up\<close> (xenia/base/math.h) and
  \<^verbatim>\<open>bytes_per_sector()\<close> are not among the sources. The spec gives the allocation
  size as the size rounded up to the sector size.
\<close>

definition round_up :: "nat \<Rightarrow> nat \<Rightarrow> nat" where
  "round_up v m = ((v + m - 1) div m) * m"

definition bytes_per_sector :: nat where
  "bytes_per_sector = kXESectorSize"

text \<open>
  The members of a \<^verbatim>\<open>DiscImageEntry\<close> that \<^verbatim>\<open>ReadEntry\<close> sets (the trailing
  underscore of the C++ names is dropped), and the entry with the children it owns.
\<close>

record entry_fields =
  name :: "u8 list"
  attributes :: u32
  size_e :: nat
  allocation_size :: nat
  create_timestamp :: nat
  access_timestamp :: nat
  write_timestamp :: nat
  data_offset :: nat
  data_size :: nat

datatype entry = Entry (fields: entry_fields) (children: "entry list")

text \<open>
  The locals that \<^verbatim>\<open>ReadEntry\<close> loads from the record at \<^verbatim>\<open>p\<close>. \<open>name_buffer\<close>
  holds the \<open>name_length\<close> bytes from \<^verbatim>\<open>p + 14\<close> on, which become the name.
\<close>

record dir_record =
  node_l :: u16
  node_r :: u16
  sector :: nat
  length_r :: nat
  attributes_r :: u8
  name_length :: u8
  name_buffer :: "u8 list"

definition read_record :: "ParseState \<Rightarrow> nat \<Rightarrow> dir_record" where
  "read_record st p =
     \<lparr> node_l = load_u16 st (p + 0),
       node_r = load_u16 st (p + 2),
       sector = unat (load_u32 st (p + 4)),
       length_r = unat (load_u32 st (p + 8)),
       attributes_r = load_u8 st (p + 12),
       name_length = load_u8 st (p + 13),
       name_buffer = map (\<lambda>i. ptr st (p + 14 + i)) [0..<unat (load_u8 st (p + 13))] \<rparr>"

definition kMaxRecursionDepth :: nat where
  "kMaxRecursionDepth = 256"

definition kMinEntrySize :: nat where
  "kMinEntrySize = 4 + 14"

text \<open>January 1, 1970 in 100-nanosecond intervals.\<close>

definition kEpoch :: nat where
  "kEpoch = 10000 * 11644473600000"

text \<open>
  The entry as \<^verbatim>\<open>ReadEntry\<close> has set it up before it looks at the kind of the
  record: name, attributes, size, allocation size and the three timestamps. The data
  offset and size are assigned in every branch that follows; they start here at zero.
\<close>

definition Create :: "dir_record \<Rightarrow> entry_fields" where
  "Create r =
     \<lparr> name = name_buffer r,
       attributes = ucast (attributes_r r) OR kFileAttributeReadOnly,
       size_e = length_r r,
       allocation_size = round_up (length_r r) bytes_per_sector,
       create_timestamp = kEpoch,
       access_timestamp = kEpoch,
       write_timestamp = kEpoch,
       data_offset = 0,
       data_size = 0 \<rparr>"

subsection \<open>ReadEntry\<close>

text \<open>
  \<^verbatim>\<open>ReadEntry(state, buffer, entry_ordinal, parent, buffer_size, depth, visited)\<close>.
  \<open>buffer\<close> is the offset of the record array from \<^verbatim>\<open>state->ptr\<close>; \<open>parent\<close> is
  the list of children of the parent entry, to which the function appends;
  \<open>visited0\<close> is \<open>None\<close> for the null pointer and \<open>Some v\<close> for a pointer to the
  set \<open>v\<close>. The result is the returned flag, the parent's children and the visited set
  after the call. The depth counts up from zero and never passes 257, so it is a natural
  number.
\<close>

function ReadEntry ::
  "ParseState \<Rightarrow> nat \<Rightarrow> u16 \<Rightarrow> entry list \<Rightarrow> nat \<Rightarrow> nat \<Rightarrow> u16 set option
     \<Rightarrow> bool \<times> entry list \<times> u16 set"
where
  "ReadEntry st buffer entry_ordinal parent buffer_size0 depth visited0 =
    (let visited = (case visited0 of None \<Rightarrow> {} | Some v \<Rightarrow> v);
         buffer_size = (if visited0 = None \<and> buffer_size0 = 0 then root_size st
                        else buffer_size0)
     in
     if depth > kMaxRecursionDepth then (False, parent, visited)
     else if entry_ordinal \<in> visited then (False, parent, visited)
     else
       let visited = insert entry_ordinal visited;
           entry_offset = unat entry_ordinal * 4
       in
       if buffer_size > 0 \<and> entry_offset + kMinEntrySize > buffer_size
       then (False, parent, visited)
       else
         let r = read_record st (buffer + entry_offset) in
         if buffer_size > 0 \<and> entry_offset + 14 + unat (name_length r) > buffer_size
         then (False, parent, visited)
         else
           let (parent, visited) =
                 (if node_l r \<noteq> 0
                  then snd (ReadEntry st buffer (node_l r) parent buffer_size (depth + 1)
                              (Some visited))
                  else (parent, visited));
               e = Create r;
               entry =
                 (if ucast (attributes_r r) AND kFileAttributeDirectory \<noteq> 0
                  then
                    (if length_r r \<noteq> 0
                     then
                       (let folder_offset = game_offset st + (sector r * kXESectorSize) in
                        if size_ps st < folder_offset
                        then Entry (e\<lparr>size_e := 0\<rparr>) []
                        else Entry e (fst (snd (ReadEntry st folder_offset 0 []
                                                   (length_r r) (depth + 1) None))))
                     else Entry e [])
                  else
                    (let file_offset = game_offset st + (sector r * kXESectorSize) in
                     if file_offset \<ge> size_ps st
                     then Entry (e\<lparr>data_offset := 0, data_size := 0, size_e := 0\<rparr>) []
                     else Entry (e\<lparr>data_offset := file_offset,
                                      data_size := length_r r\<rparr>) []));
               parent = parent @ [entry];
               (parent, visited) =
                 (if node_r r \<noteq> 0
                  then snd (ReadEntry st buffer (node_r r) parent buffer_size (depth + 1)
                              (Some visited))
                  else (parent, visited))
           in (True, parent, visited))"
  by pat_completeness auto
termination
  by (relation "measure (\<lambda>(st, buffer, ord, parent, bs, depth, v). 257 - depth)")
     (auto simp: kMaxRecursionDepth_def)

subsection \<open>ReadAllEntries and Initialize\<close>

text \<open>
  The root entry that \<^verbatim>\<open>ReadAllEntries\<close> creates: an empty name and the directory
  attribute. The constructor of \<^verbatim>\<open>DiscImageEntry\<close> is not among the sources; the
  members it alone sets are taken as zero.
\<close>

definition root_fields :: entry_fields where
  "root_fields =
     \<lparr> name = [], attributes = kFileAttributeDirectory, size_e = 0, allocation_size = 0,
       create_timestamp = 0, access_timestamp = 0, write_timestamp = 0,
       data_offset = 0, data_size = 0 \<rparr>"

text \<open>The counters of \<^verbatim>\<open>ReadAllEntries\<close> that the lambda \<^verbatim>\<open>count_entries\<close> updates.\<close>

record counters =
  total_entries :: nat
  total_files :: nat
  total_dirs :: nat

fun count_entries :: "entry \<Rightarrow> counters \<Rightarrow> counters" where
  "count_entries (Entry f cs) k =
     (let k = k\<lparr>total_entries := total_entries k + 1\<rparr> in
      if attributes f AND kFileAttributeDirectory \<noteq> 0
      then fold count_entries cs (k\<lparr>total_dirs := total_dirs k + 1\<rparr>)
      else k\<lparr>total_files := total_files k + 1\<rparr>)"

text \<open>
  \<^verbatim>\<open>ReadAllEntries\<close>: the result and the root entry it leaves in \<^verbatim>\<open>root_entry_\<close>.
  \<^verbatim>\<open>ReadEntry\<close> is called with its default arguments: buffer size 0, depth 0 and no
  visited set. Its returned flag is only logged.
\<close>

definition ReadAllEntries :: "ParseState \<Rightarrow> nat \<Rightarrow> Error \<times> entry" where
  "ReadAllEntries st root_buffer =
     (let root_children = fst (snd (ReadEntry st root_buffer 0 [] 0 0 None));
          root_entry = Entry root_fields root_children;
          k = fold count_entries (children root_entry)
                \<lparr>total_entries = 0, total_files = 0, total_dirs = 0\<rparr>
      in if total_entries k = 0 then (kErrorOutOfMemory, root_entry)
         else (kSuccess, root_entry))"

text \<open>
  \<^verbatim>\<open>Initialize\<close> from the point where the image is mapped (\<open>mmap\<close> is the mapped
  view, \<open>n\<close> its size): the returned flag and \<^verbatim>\<open>root_entry_\<close>, which stays unset
  when \<^verbatim>\<open>ReadAllEntries\<close> is not reached. The mapping loop before it is not modelled.
\<close>

definition Initialize_mapped :: "(nat \<Rightarrow> u8) \<Rightarrow> nat \<Rightarrow> bool \<times> entry option" where
  "Initialize_mapped mmap n =
     (let state = \<lparr>ptr = mmap, size_ps = n, game_offset = 0, root_sector = 0,
                   root_offset = 0, root_size = 0\<rparr>
      in case Verify state of
           (result, state) \<Rightarrow>
             if result \<noteq> kSuccess then (False, None)
             else
               (case ReadAllEntries state (root_offset state) of
                  (result, root_entry) \<Rightarrow>
                    if result \<noteq> kSuccess then (False, Some root_entry)
                    else (True, Some root_entry)))"

section \<open>Concrete images\<close>

text \<open>
  Mapped views for the concrete checks below: \<open>zero_mem\<close> is all zero, and
  \<open>bytes_at off bs m\<close> is \<open>m\<close> with the bytes \<open>bs\<close> stored from offset \<open>off\<close> on.
  \<open>state_of m n\<close> is the parse state that \<^verbatim>\<open>Initialize\<close> builds for a view \<open>m\<close> of
  a file of \<open>n\<close> bytes.
\<close>

definition zero_mem :: "nat \<Rightarrow> u8" where
  "zero_mem = (\<lambda>i. 0)"

definition bytes_at :: "nat \<Rightarrow> u8 list \<Rightarrow> (nat \<Rightarrow> u8) \<Rightarrow> nat \<Rightarrow> u8" where
  "bytes_at off bs m = (\<lambda>i. if off \<le> i \<and> i < off + length bs then bs ! (i - off) else m i)"

definition state_of :: "(nat \<Rightarrow> u8) \<Rightarrow> nat \<Rightarrow> ParseState" where
  "state_of m n = \<lparr>ptr = m, size_ps = n, game_offset = 0, root_sector = 0,
                   root_offset = 0, root_size = 0\<rparr>"

text \<open>
  The 28 bytes of a superblock (magic, root sector, root size) and the bytes of a
  directory record with a name, in the byte order of \<open>load_u16\<close> and \<open>load_u32\<close>.
\<close>

definition superblock :: "nat \<Rightarrow> nat \<Rightarrow> u8 list" where
  "superblock sec len =
     magic @ [of_nat (sec div 16777216), of_nat (sec div 65536), of_nat (sec div 256),
              of_nat sec,
              of_nat (len div 16777216), of_nat (len div 65536), of_nat (len div 256),
              of_nat len]"

definition rec_bytes :: "nat \<Rightarrow> nat \<Rightarrow> nat \<Rightarrow> nat \<Rightarrow> nat \<Rightarrow> string \<Rightarrow> u8 list" where
  "rec_bytes l r sec len attr nm =
     [of_nat (l div 256), of_nat l, of_nat (r div 256), of_nat r,
      of_nat (sec div 16777216), of_nat (sec div 65536), of_nat (sec div 256), of_nat sec,
      of_nat (len div 16777216), of_nat (len div 65536), of_nat (len div 256), of_nat len,
      of_nat attr, of_nat (length nm)] @ bytes_of nm"


text \<open>A view with the magic only at sector 32 of the second candidate, 0xFB20.\<close>

definition second_image :: "nat \<Rightarrow> u8" where
  "second_image = bytes_at (0xFB20 + 65536) magic zero_mem"


section \<open>Notions for stating the properties of ReadEntry\<close>

text \<open>
  The visited set a call works with, and the array length it checks against, as the
  first lines of \<^verbatim>\<open>ReadEntry\<close> compute them from the arguments.
\<close>

definition scope :: "u16 set option \<Rightarrow> u16 set" where
  "scope visited0 = (case visited0 of None \<Rightarrow> {} | Some v \<Rightarrow> v)"

definition array_size :: "ParseState \<Rightarrow> nat \<Rightarrow> u16 set option \<Rightarrow> nat" where
  "array_size st buffer_size0 visited0 =
     (if visited0 = None \<and> buffer_size0 = 0 then root_size st else buffer_size0)"

text \<open>
  The four guards of \<^verbatim>\<open>ReadEntry\<close> in the order of the source: depth limit, visited
  ordinal, room for a minimal record, room for the name. \<open>guards_pass\<close> holds when none
  of them makes the call return false.
\<close>

definition guards_pass ::
  "ParseState \<Rightarrow> nat \<Rightarrow> u16 \<Rightarrow> nat \<Rightarrow> nat \<Rightarrow> u16 set option \<Rightarrow> bool" where
  "guards_pass st buffer entry_ordinal buffer_size0 depth visited0 =
     (let buffer_size = array_size st buffer_size0 visited0;
          entry_offset = unat entry_ordinal * 4;
          r = read_record st (buffer + entry_offset)
      in \<not> depth > kMaxRecursionDepth \<and>
         entry_ordinal \<notin> scope visited0 \<and>
         \<not> (buffer_size > 0 \<and> entry_offset + kMinEntrySize > buffer_size) \<and>
         \<not> (buffer_size > 0 \<and> entry_offset + 14 + unat (name_length r) > buffer_size))"

text \<open>
  \<^verbatim>\<open>if (node) ReadEntry(state, buffer, node, parent, buffer_size, depth + 1, visited)\<close>:
  the step to a child record of the same array, for \<^verbatim>\<open>node_l\<close> and for
  \<^verbatim>\<open>node_r\<close>. The flag the call returns is only logged.
\<close>

definition descend ::
  "ParseState \<Rightarrow> nat \<Rightarrow> u16 \<Rightarrow> entry list \<Rightarrow> nat \<Rightarrow> nat \<Rightarrow> u16 set
     \<Rightarrow> entry list \<times> u16 set" where
  "descend st buffer node parent bs depth visited =
     (if node \<noteq> 0
      then snd (ReadEntry st buffer node parent bs (depth + 1) (Some visited))
      else (parent, visited))"

text \<open>
  The entry that \<^verbatim>\<open>ReadEntry\<close> appends for the record \<open>r\<close>: the part of its body
  between the two child steps.
\<close>

definition materialize :: "ParseState \<Rightarrow> dir_record \<Rightarrow> nat \<Rightarrow> entry" where
  "materialize st r depth =
     (let e = Create r in
      if ucast (attributes_r r) AND kFileAttributeDirectory \<noteq> 0
      then
        (if length_r r \<noteq> 0
         then
           (let folder_offset = game_offset st + (sector r * kXESectorSize) in
            if size_ps st < folder_offset
            then Entry (e\<lparr>size_e := 0\<rparr>) []
            else Entry e (fst (snd (ReadEntry st folder_offset 0 []
                                       (length_r r) (depth + 1) None))))
         else Entry e [])
      else
        (let file_offset = game_offset st + (sector r * kXESectorSize) in
         if file_offset \<ge> size_ps st
         then Entry (e\<lparr>data_offset := 0, data_size := 0, size_e := 0\<rparr>) []
         else Entry (e\<lparr>data_offset := file_offset, data_size := length_r r\<rparr>) []))"

text \<open>
  The arguments of one call of \<^verbatim>\<open>ReadEntry\<close>, and their components. The relation
  \<open>ReadEntry_rel y x\<close>, which the definition of \<open>ReadEntry\<close> gives, says that
  the call \<open>x\<close> makes the call \<open>y\<close>.
\<close>

type_synonym call = "ParseState \<times> nat \<times> u16 \<times> entry list \<times> nat \<times> nat \<times> u16 set option"

definition call_buffer :: "call \<Rightarrow> nat" where
  "call_buffer c = (case c of (st, buffer, ord, parent, bs, depth, v0) \<Rightarrow> buffer)"

definition call_ordinal :: "call \<Rightarrow> u16" where
  "call_ordinal c = (case c of (st, buffer, ord, parent, bs, depth, v0) \<Rightarrow> ord)"

definition call_depth :: "call \<Rightarrow> nat" where
  "call_depth c = (case c of (st, buffer, ord, parent, bs, depth, v0) \<Rightarrow> depth)"

definition call_visited :: "call \<Rightarrow> u16 set option" where
  "call_visited c = (case c of (st, buffer, ord, parent, bs, depth, v0) \<Rightarrow> v0)"

text \<open>The record that a call decodes.\<close>

definition call_record :: "call \<Rightarrow> dir_record" where
  "call_record c = (case c of (st, buffer, ord, parent, bs, depth, v0) \<Rightarrow>
     read_record st (buffer + unat ord * 4))"

text \<open>The value of \<^verbatim>\<open>total_entries\<close> after the counting loop of \<^verbatim>\<open>ReadAllEntries\<close>.\<close>

definition entry_count :: "entry list \<Rightarrow> nat" where
  "entry_count es = total_entries (fold count_entries es
      \<lparr>total_entries = 0, total_files = 0, total_dirs = 0\<rparr>)"

section \<open>Concrete directory trees\<close>

text \<open>
  Three files in one root array at sector 33: "A" at ordinal 0 with right child 5, "B"
  at ordinal 5 whose left child is 5 again and whose right child is 10, and "C" at
  ordinal 10. \<open>cycle_state\<close> is the parse state after \<^verbatim>\<open>Verify\<close>.
\<close>

definition cycle_image :: "nat \<Rightarrow> u8" where
  "cycle_image =
     bytes_at 65536 (superblock 33 2048)
       (bytes_at 67584 (rec_bytes 0 5 34 5 0 ''A'')
         (bytes_at 67604 (rec_bytes 5 10 34 3 0 ''B'')
           (bytes_at 67624 (rec_bytes 0 0 35 7 0 ''C'') zero_mem)))"

definition cycle_state :: ParseState where
  "cycle_state = \<lparr>ptr = cycle_image, size_ps = 73728, game_offset = 0, root_sector = 33,
                   root_offset = 67584, root_size = 2048\<rparr>"

text \<open>A file entry as \<^verbatim>\<open>ReadEntry\<close> builds it for data that lies inside the image.\<close>

definition file_entry :: "string \<Rightarrow> nat \<Rightarrow> nat \<Rightarrow> entry" where
  "file_entry nm len off =
     Entry \<lparr>name = bytes_of nm, attributes = 1, size_e = len,
            allocation_size = round_up len 2048,
            create_timestamp = kEpoch, access_timestamp = kEpoch, write_timestamp = kEpoch,
            data_offset = off, data_size = len\<rparr> []"

text \<open>A valid superblock whose root array has 13 bytes: too short for one record.\<close>

definition tiny_root_image :: "nat \<Rightarrow> u8" where
  "tiny_root_image = bytes_at 65536 (superblock 33 13) zero_mem"

definition tiny_root_state :: ParseState where
  "tiny_root_state = \<lparr>ptr = tiny_root_image, size_ps = 73728, game_offset = 0,
     root_sector = 33, root_offset = 67584, root_size = 13\<rparr>"

text \<open>
  Files of 69632 bytes (34 sectors) whose root array holds one record with sector 34 and
  length 2048, so that its data starts exactly at the end of the file: a directory "D"
  in the first, a file "F" in the second.
\<close>

definition dir_at_end_image :: "nat \<Rightarrow> u8" where
  "dir_at_end_image =
     bytes_at 65536 (superblock 33 2048)
       (bytes_at 67584 (rec_bytes 0 0 34 2048 16 ''D'') zero_mem)"

definition dir_at_end_state :: ParseState where
  "dir_at_end_state = \<lparr>ptr = dir_at_end_image, size_ps = 69632, game_offset = 0,
     root_sector = 33, root_offset = 67584, root_size = 2048\<rparr>"

definition file_at_end_image :: "nat \<Rightarrow> u8" where
  "file_at_end_image =
     bytes_at 65536 (superblock 33 2048)
       (bytes_at 67584 (rec_bytes 0 0 34 2048 0 ''F'') zero_mem)"

definition file_at_end_state :: ParseState where
  "file_at_end_state = \<lparr>ptr = file_at_end_image, size_ps = 69632, game_offset = 0,
     root_sector = 33, root_offset = 67584, root_size = 2048\<rparr>"

section \<open>Notions for stating the properties of the retry loop\<close>







definition reader_after :: "RobustFileReader \<Rightarrow> int \<Rightarrow> attempt \<Rightarrow> RobustFileReader" where
  "reader_after rd retry a =
     (let rd = (if retry > 0 then rd\<lparr>total_retries := total_retries rd + 1\<rparr> else rd) in
      case a of
        Reads file_size duration good eof gcount \<Rightarrow>
          if \<not> good \<and> \<not> eof then
            (if DetectInterference rd duration file_size
             then rd\<lparr>interference_count := interference_count rd + 1\<rparr> else rd)
          else if gcount \<noteq> file_size then rd
          else if retry > 0 then rd\<lparr>recovered_errors := recovered_errors rd + 1\<rparr>
          else rd
      | _ \<Rightarrow> rd)"

text \<open>
  A new reader with the default configuration, a world in which nothing has happened
  yet, some value for the indeterminate \<^verbatim>\<open>last_result\<close>, and three sources: one whose
  read fails twice and then delivers the 10 bytes of the file, one that never opens, and
  one on which every attempt throws.
\<close>

definition reader0 :: RobustFileReader where
  "reader0 = \<lparr>config = default_config, total_retries = 0, interference_count = 0,
               recovered_errors = 0\<rparr>"

definition world0 :: io_world where
  "world0 = \<lparr>opens = 0, slept = []\<rparr>"

definition uninit0 :: IOResult where
  "uninit0 = \<lparr>error = Unknown, message = [], bytes_processed = 0, retry_count = 0,
               recovered = False\<rparr>"


definition never_opens :: "nat \<Rightarrow> attempt" where
  "never_opens k = OpenFails"

definition always_throws :: "nat \<Rightarrow> attempt" where
  "always_throws k = Throws ''bad_alloc''"

section \<open>Notions for stating the properties of the chunked read\<close>













section \<open>Properties of the CRC-32\<close>





section \<open>Properties of Verify\<close>

lemma sector32 [simp]: "32 * kXESectorSize = 65536"
  by (simp add: kXESectorSize_def)

lemma magic_bytes:
  "magic = [77, 73, 67, 82, 79, 83, 79, 70, 84, 42, 88, 66, 79, 88, 42, 77, 69, 68, 73, 65]"
  by (simp add: magic_def bytes_of_def)

lemma magic_length: "length magic = 20"
  by (simp add: magic_bytes)

lemma upt20: "[0..<20] = [0,1,2,3,4,5,6,7,8,9,10,11,12,13,14,15,16,17,18,19]"
  by code_simp

lemma VerifyMagic_game_offset [simp]:
  "VerifyMagic (st\<lparr>game_offset := c\<rparr>) off = VerifyMagic st off"
  by (simp add: VerifyMagic_def)

lemma VerifyMagic_lt: "VerifyMagic st off \<Longrightarrow> off < size_ps st"
  by (simp add: VerifyMagic_def split: if_splits)

lemma VerifyMagic_iff:
  "VerifyMagic st off \<longleftrightarrow> off < size_ps st \<and> (\<forall>i<20. ptr st (off + i) = magic ! i)"
proof -
  have "(map (\<lambda>i. ptr st (off + i)) [0..<20] = magic) = (\<forall>i<20. ptr st (off + i) = magic ! i)"
    using magic_length by (auto simp: list_eq_iff_nth_eq)
  then show ?thesis by (auto simp: VerifyMagic_def)
qed

lemma load_u32_update [simp]:
  "load_u32 (st\<lparr>game_offset := c\<rparr>) p = load_u32 st p"
  "load_u32 (st\<lparr>root_sector := c\<rparr>) p = load_u32 st p"
  "load_u32 (st\<lparr>root_size := c\<rparr>) p = load_u32 st p"
  "load_u32 (st\<lparr>root_offset := c\<rparr>) p = load_u32 st p"
  by (simp_all add: load_u32_def)

text \<open>The loop finds nothing when no candidate carries the magic.\<close>

lemma find_magic_none:
  "\<forall>c\<in>set cs. \<not> VerifyMagic st (c + 32 * kXESectorSize) \<Longrightarrow>
   fst (find_magic st cs) = False"
  by (induction cs arbitrary: st) (simp_all add: Let_def)

text \<open>The loop stops at the first candidate that carries the magic, whatever follows it.\<close>

lemma find_magic_first:
  "\<forall>c'\<in>set pre. \<not> VerifyMagic st (c' + 32 * kXESectorSize) \<Longrightarrow>
   VerifyMagic st (c + 32 * kXESectorSize) \<Longrightarrow>
   find_magic st (pre @ c # post) = (True, st\<lparr>game_offset := c\<rparr>)"
  by (induction pre arbitrary: st) (simp_all add: Let_def)



lemma Verify_no_magic:
  "\<forall>c\<in>set likely_offsets. \<not> VerifyMagic st (c + 32 * kXESectorSize) \<Longrightarrow>
   fst (Verify st) = kErrorFileMismatch"
  using find_magic_none [of likely_offsets st]
  by (auto simp: Verify_def split: prod.splits)

lemma Initialize_no_magic:
  assumes "\<forall>c\<in>set likely_offsets. \<not> VerifyMagic (state_of m n) (c + 32 * kXESectorSize)"
  shows "Initialize_mapped m n = (False, None)"
  using Verify_no_magic [OF assms]
  by (auto simp: Initialize_mapped_def state_of_def Let_def split: prod.splits)

lemma Verify_game_offset:
  "find_magic st likely_offsets = (found, st') \<Longrightarrow>
   game_offset (snd (Verify st)) = game_offset st'"
  by (simp add: Verify_def Let_def)

lemma Verify_found:
  "find_magic st likely_offsets = (True, st') \<Longrightarrow> fst (Verify st) \<noteq> kErrorFileMismatch"
  by (simp add: Verify_def Let_def)


text \<open>
  C3. \<^verbatim>\<open>Verify\<close> tries the five candidate offsets 0x00000000, 0x0000FB20, 0x00020600,
  0x02080000 and 0x0FD90000 in this order. A candidate matches when the 20 bytes at
  candidate + 32 * 2048 lie at an offset inside the file and equal
  "MICROSOFT*XBOX*MEDIA". The first candidate of the list that matches becomes the game
  offset, whatever candidates follow it in the list. When no candidate matches,
  \<^verbatim>\<open>Verify\<close> returns the file-mismatch error and \<^verbatim>\<open>Initialize\<close> returns false without
  creating a root entry.
\<close>

theorem Verify_scans_candidates:
  "likely_offsets = [0x00000000, 0x0000FB20, 0x00020600, 0x02080000, 0x0FD90000]
   \<and> (\<forall>st off. VerifyMagic st off \<longleftrightarrow>
          off < size_ps st \<and>
          (\<forall>i<20. ptr st (off + i) = bytes_of ''MICROSOFT*XBOX*MEDIA'' ! i))
   \<and> (\<forall>st pre c post.
          likely_offsets = pre @ c # post \<longrightarrow>
          (\<forall>c'\<in>set pre. \<not> VerifyMagic st (c' + 32 * 2048)) \<longrightarrow>
          VerifyMagic st (c + 32 * 2048) \<longrightarrow>
            (\<forall>post'. find_magic st (pre @ c # post') = (True, st\<lparr>game_offset := c\<rparr>)) \<and>
            game_offset (snd (Verify st)) = c \<and>
            fst (Verify st) \<noteq> kErrorFileMismatch)
   \<and> (\<forall>st. (\<forall>c\<in>set likely_offsets. \<not> VerifyMagic st (c + 32 * 2048)) \<longrightarrow>
          fst (Verify st) = kErrorFileMismatch \<and>
          Initialize_mapped (ptr st) (size_ps st) = (False, None))"
proof (intro conjI allI impI)
  show "likely_offsets = [0x00000000, 0x0000FB20, 0x00020600, 0x02080000, 0x0FD90000]"
    by (simp add: likely_offsets_def)
next
  fix st off
  show "VerifyMagic st off \<longleftrightarrow>
          off < size_ps st \<and>
          (\<forall>i<20. ptr st (off + i) = bytes_of ''MICROSOFT*XBOX*MEDIA'' ! i)"
    by (simp add: VerifyMagic_iff magic_def)
next
  fix st pre c post post'
  assume pre: "\<forall>c'\<in>set pre. \<not> VerifyMagic st (c' + 32 * 2048)"
    and c: "VerifyMagic st (c + 32 * 2048)"
  from pre c show "find_magic st (pre @ c # post') = (True, st\<lparr>game_offset := c\<rparr>)"
    by (intro find_magic_first) (simp_all add: kXESectorSize_def)
next
  fix st pre c post
  assume l: "likely_offsets = pre @ c # post"
    and pre: "\<forall>c'\<in>set pre. \<not> VerifyMagic st (c' + 32 * 2048)"
    and c: "VerifyMagic st (c + 32 * 2048)"
  from pre c have f: "find_magic st likely_offsets = (True, st\<lparr>game_offset := c\<rparr>)"
    unfolding l by (intro find_magic_first) (simp_all add: kXESectorSize_def)
  from Verify_game_offset [OF f] show "game_offset (snd (Verify st)) = c" by simp
  from Verify_found [OF f] show "fst (Verify st) \<noteq> kErrorFileMismatch" .
next
  fix st
  assume none: "\<forall>c\<in>set likely_offsets. \<not> VerifyMagic st (c + 32 * 2048)"
  then have n: "\<forall>c\<in>set likely_offsets. \<not> VerifyMagic st (c + 32 * kXESectorSize)"
    by (simp add: kXESectorSize_def)
  from Verify_no_magic [OF n] show "fst (Verify st) = kErrorFileMismatch" .
  have "\<forall>c\<in>set likely_offsets.
          \<not> VerifyMagic (state_of (ptr st) (size_ps st)) (c + 32 * kXESectorSize)"
    using n by (auto simp: VerifyMagic_def state_of_def)
  from Initialize_no_magic [OF this]
  show "Initialize_mapped (ptr st) (size_ps st) = (False, None)" .
qed

lemma second_image_first_candidate:
  "\<not> VerifyMagic (state_of second_image 0x30000) (0 + 32 * 2048)"
  by (simp add: VerifyMagic_def state_of_def second_image_def bytes_at_def upt20 magic_bytes
      zero_mem_def)

lemma second_image_second_candidate:
  "VerifyMagic (state_of second_image 0x30000) (0xFB20 + 32 * 2048)"
  by (simp add: VerifyMagic_def state_of_def second_image_def bytes_at_def upt20 magic_bytes
      zero_mem_def)

lemma zero_mem_no_magic: "\<not> VerifyMagic (state_of zero_mem 0x20000000) off"
  by (simp add: VerifyMagic_def state_of_def upt20 magic_bytes zero_mem_def)

text \<open>
  The theorem at two views: one with the magic at the second candidate only, and one
  of 512 MiB of zeros.
\<close>

theorem Verify_scans_candidates_witness:
  "\<not> VerifyMagic (state_of second_image 0x30000) (0 + 32 * 2048) \<and>
   VerifyMagic (state_of second_image 0x30000) (0xFB20 + 32 * 2048) \<and>
   find_magic (state_of second_image 0x30000) likely_offsets =
     (True, (state_of second_image 0x30000)\<lparr>game_offset := 0xFB20\<rparr>) \<and>
   game_offset (snd (Verify (state_of second_image 0x30000))) = 0xFB20 \<and>
   fst (Verify (state_of zero_mem 0x20000000)) = kErrorFileMismatch \<and>
   Initialize_mapped zero_mem 0x20000000 = (False, None)"
proof -
  let ?s = "state_of second_image 0x30000"
  let ?z = "state_of zero_mem 0x20000000"
  let ?post = "[0x00020600, 0x02080000, 0x0FD90000 :: nat]"
  note T3 = conjunct1 [OF conjunct2 [OF conjunct2 [OF Verify_scans_candidates]]]
  note T4 = conjunct2 [OF conjunct2 [OF conjunct2 [OF Verify_scans_candidates]]]
  have l: "likely_offsets = [0] @ 0xFB20 # ?post"
    by (simp add: likely_offsets_def)
  have pre: "\<forall>c'\<in>set [0]. \<not> VerifyMagic ?s (c' + 32 * 2048)"
    using second_image_first_candidate by simp
  note R = mp [OF mp [OF mp [OF spec [OF spec [OF spec [OF spec [OF T3]]]] l] pre]
                second_image_second_candidate]
  from R have A: "find_magic ?s ([0] @ 0xFB20 # ?post) = (True, ?s\<lparr>game_offset := 0xFB20\<rparr>)"
    by blast
  from R have B: "game_offset (snd (Verify ?s)) = 0xFB20"
    by (rule conjunct1 [OF conjunct2])
  from A have A': "find_magic ?s likely_offsets = (True, ?s\<lparr>game_offset := 0xFB20\<rparr>)"
    unfolding l .
  have none: "\<forall>c\<in>set likely_offsets. \<not> VerifyMagic ?z (c + 32 * 2048)"
    using zero_mem_no_magic by blast
  note C = mp [OF spec [OF T4] none]
  have pz: "ptr ?z = zero_mem" "size_ps ?z = 0x20000000"
    by (simp_all add: state_of_def)
  from C have C1: "fst (Verify ?z) = kErrorFileMismatch"
    by (rule conjunct1)
  from C have C2: "Initialize_mapped zero_mem 0x20000000 = (False, None)"
    unfolding pz by (rule conjunct2)
  from second_image_first_candidate second_image_second_candidate A' B C1 C2
  show ?thesis by (intro conjI)
qed






section \<open>Properties of ReadEntry\<close>

declare ReadEntry.simps [simp del]

text \<open>
  The defining equation of \<open>ReadEntry\<close>, with the notions above folded in.
\<close>

lemma ReadEntry_unfold:
  "ReadEntry st buffer entry_ordinal parent buffer_size0 depth visited0 =
    (let visited = scope visited0;
         buffer_size = array_size st buffer_size0 visited0
     in
     if depth > kMaxRecursionDepth then (False, parent, visited)
     else if entry_ordinal \<in> visited then (False, parent, visited)
     else
       let visited = insert entry_ordinal visited;
           entry_offset = unat entry_ordinal * 4
       in
       if buffer_size > 0 \<and> entry_offset + kMinEntrySize > buffer_size
       then (False, parent, visited)
       else
         let r = read_record st (buffer + entry_offset) in
         if buffer_size > 0 \<and> entry_offset + 14 + unat (name_length r) > buffer_size
         then (False, parent, visited)
         else
           let l = descend st buffer (node_l r) parent buffer_size depth visited;
               rt = descend st buffer (node_r r) (fst l @ [materialize st r depth])
                      buffer_size depth (snd l)
           in (True, fst rt, snd rt))"
  apply (subst ReadEntry.simps)
  apply (simp only: scope_def array_size_def descend_def materialize_def Let_def case_prod_beta fst_conv snd_conv)
  done

lemma ReadEntry_pass:
  assumes "guards_pass st buffer ord bs depth v0"
  shows "ReadEntry st buffer ord parent bs depth v0 =
     (let r = read_record st (buffer + unat ord * 4);
          l = descend st buffer (node_l r) parent (array_size st bs v0) depth
                (insert ord (scope v0));
          rt = descend st buffer (node_r r) (fst l @ [materialize st r depth])
                (array_size st bs v0) depth (snd l)
      in (True, fst rt, snd rt))"
  using assms
  by (subst ReadEntry_unfold) (simp add: guards_pass_def Let_def)

lemma ReadEntry_fail:
  assumes "\<not> guards_pass st buffer ord bs depth v0"
  shows "fst (ReadEntry st buffer ord parent bs depth v0) = False \<and>
         fst (snd (ReadEntry st buffer ord parent bs depth v0)) = parent"
  using assms
  by (subst (1 2) ReadEntry_unfold) (auto simp add: guards_pass_def Let_def)

lemma ReadEntry_depth_cap:
  "kMaxRecursionDepth < depth \<Longrightarrow>
   ReadEntry st buffer ord parent bs depth v0 = (False, parent, scope v0)"
  by (subst ReadEntry_unfold) (simp add: Let_def)

lemma ReadEntry_revisit:
  "ord \<in> v \<Longrightarrow> ReadEntry st buffer ord parent bs depth (Some v) = (False, parent, v)"
  by (subst ReadEntry_unfold) (simp add: Let_def scope_def)

lemma guards_pass_depth: "guards_pass st buffer ord bs depth v0 \<Longrightarrow> depth \<le> 256"
  by (simp add: guards_pass_def Let_def kMaxRecursionDepth_def)

lemma ReadEntry_fail_eq:
  assumes "\<not> guards_pass st buffer ord bs depth v0"
  shows "\<exists>vis. \<forall>parent. ReadEntry st buffer ord parent bs depth v0 = (False, parent, vis)"
proof -
  have "\<forall>parent. ReadEntry st buffer ord parent bs depth v0 =
      (False, parent, snd (snd (ReadEntry st buffer ord [] bs depth v0)))"
    using assms
    by (subst (1 2) ReadEntry_unfold) (auto simp add: guards_pass_def Let_def)
  then show ?thesis by blast
qed

lemma descend_stop:
  "node = 0 \<or> node \<in> v \<Longrightarrow> descend st buffer node parent bs depth v = (parent, v)"
  by (auto simp: descend_def ReadEntry_revisit)

text \<open>
  A call only appends to the children it is given: what it appends and the visited set
  it returns do not depend on them.
\<close>

lemma ReadEntry_frame:
  "ReadEntry st buffer ord parent bs depth v0 =
     (fst (ReadEntry st buffer ord [] bs depth v0),
      parent @ fst (snd (ReadEntry st buffer ord [] bs depth v0)),
      snd (snd (ReadEntry st buffer ord [] bs depth v0)))"
proof (induction "257 - depth" arbitrary: depth ord parent v0 bs rule: less_induct)
  case less
  show ?case
  proof (cases "guards_pass st buffer ord bs depth v0")
    case False
    from ReadEntry_fail_eq [OF False] obtain vis where
      "\<And>p. ReadEntry st buffer ord p bs depth v0 = (False, p, vis)" by blast
    then show ?thesis by simp
  next
    case True
    then have d: "257 - (depth + 1) < 257 - depth"
      using guards_pass_depth [OF True] by simp
    have IH: "\<And>node p b v. ReadEntry st buffer node p b (depth + 1) (Some v) =
         (fst (ReadEntry st buffer node [] b (depth + 1) (Some v)),
          p @ fst (snd (ReadEntry st buffer node [] b (depth + 1) (Some v))),
          snd (snd (ReadEntry st buffer node [] b (depth + 1) (Some v))))"
      by (rule less.hyps [OF d])
    have D: "\<And>node p b v. descend st buffer node p b depth v =
         (p @ fst (descend st buffer node [] b depth v), snd (descend st buffer node [] b depth v))"
    proof -
      fix node p b v
      show "descend st buffer node p b depth v =
         (p @ fst (descend st buffer node [] b depth v), snd (descend st buffer node [] b depth v))"
      proof (cases "node = 0")
        case True
        then show ?thesis by (simp add: descend_def)
      next
        case False
        then show ?thesis
          using IH [of node p b v] by (simp add: descend_def)
      qed
    qed
    define r where "r = read_record st (buffer + unat ord * 4)"
    define eff where "eff = array_size st bs v0"
    define m where "m = materialize st r depth"
    define l0 where "l0 = descend st buffer (node_l r) [] eff depth (insert ord (scope v0))"
    define r0 where "r0 = descend st buffer (node_r r) [] eff depth (snd l0)"
    have lp: "descend st buffer (node_l r) p eff depth (insert ord (scope v0)) =
        (p @ fst l0, snd l0)" for p
      unfolding l0_def by (rule D)
    have rp: "descend st buffer (node_r r) p eff depth (snd l0) = (p @ fst r0, snd r0)" for p
      unfolding r0_def by (rule D)
    have "ReadEntry st buffer ord p bs depth v0 =
        (True, p @ fst l0 @ [m] @ fst r0, snd r0)" for p
      by (subst ReadEntry_pass [OF True])
         (simp add: Let_def r_def [symmetric] eff_def [symmetric] m_def [symmetric] lp rp)
    then show ?thesis by simp
  qed
qed

lemma ReadEntry_pass_frame:
  assumes "guards_pass st buffer ord bs depth v0"
  shows "ReadEntry st buffer ord parent bs depth v0 =
     (let r = read_record st (buffer + unat ord * 4);
          l = descend st buffer (node_l r) [] (array_size st bs v0) depth
                (insert ord (scope v0));
          rt = descend st buffer (node_r r) [] (array_size st bs v0) depth (snd l)
      in (True, parent @ fst l @ [materialize st r depth] @ fst rt, snd rt))"
proof -
  have D: "descend st buffer node p b depth v =
      (p @ fst (descend st buffer node [] b depth v), snd (descend st buffer node [] b depth v))"
    for node p b v
  proof (cases "node = 0")
    case True
    then show ?thesis by (simp add: descend_def)
  next
    case False
    then show ?thesis
      using ReadEntry_frame [of st buffer node p b "depth + 1" "Some v"]
      by (simp add: descend_def)
  qed
  define r where "r = read_record st (buffer + unat ord * 4)"
  define eff where "eff = array_size st bs v0"
  define l0 where "l0 = descend st buffer (node_l r) [] eff depth (insert ord (scope v0))"
  define r0 where "r0 = descend st buffer (node_r r) [] eff depth (snd l0)"
  have lp: "descend st buffer (node_l r) p eff depth (insert ord (scope v0)) =
      (p @ fst l0, snd l0)" for p
    unfolding l0_def by (rule D)
  have rp: "descend st buffer (node_r r) p eff depth (snd l0) = (p @ fst r0, snd r0)" for p
    unfolding r0_def by (rule D)
  show ?thesis
    by (subst ReadEntry_pass [OF assms])
       (simp add: Let_def r_def [symmetric] eff_def [symmetric] lp rp l0_def [symmetric]
          r0_def [symmetric])
qed

text \<open>
  The visited set only grows.
\<close>

lemma descend_visited_mono_aux:
  assumes "\<And>node p b v. v \<subseteq> snd (snd (ReadEntry st buffer node p b (depth + 1) (Some v)))"
  shows "v \<subseteq> snd (descend st buffer node p b depth v)"
  using assms [of v node p b] by (simp add: descend_def)

lemma ReadEntry_visited_mono:
  "scope v0 \<subseteq> snd (snd (ReadEntry st buffer ord parent bs depth v0))"
proof (induction "257 - depth" arbitrary: depth ord parent v0 bs rule: less_induct)
  case less
  show ?case
  proof (cases "guards_pass st buffer ord bs depth v0")
    case False
    then show ?thesis
      by (subst ReadEntry_unfold) (auto simp add: guards_pass_def Let_def)
  next
    case True
    then have d: "257 - (depth + 1) < 257 - depth"
      using guards_pass_depth [OF True] by simp
    have IH: "v \<subseteq> snd (snd (ReadEntry st buffer node p b (depth + 1) (Some v)))" for node p b v
      using less.hyps [OF d, of "Some v" node p b] by (simp add: scope_def)
    have D: "v \<subseteq> snd (descend st buffer node p b depth v)" for node p b v
      by (rule descend_visited_mono_aux) (rule IH)
    define r where "r = read_record st (buffer + unat ord * 4)"
    define eff where "eff = array_size st bs v0"
    define l where "l = descend st buffer (node_l r) parent eff depth (insert ord (scope v0))"
    have 1: "insert ord (scope v0) \<subseteq> snd l" unfolding l_def by (rule D)
    have 2: "snd l \<subseteq> snd (descend st buffer (node_r r) (fst l @ [materialize st r depth]) eff depth (snd l))"
      by (rule D)
    from 1 2 show ?thesis
      by (subst ReadEntry_pass [OF True])
         (auto simp add: Let_def r_def [symmetric] eff_def [symmetric] l_def [symmetric])
  qed
qed

text \<open>
  The calls that a call makes: one level deeper, from a depth of at most 256; either
  for a nonzero child ordinal in the same array, or for ordinal 0 of another array with
  no visited set.
\<close>

lemma ReadEntry_rel_depth:
  "ReadEntry_rel y x \<Longrightarrow>
     call_depth y = call_depth x + 1 \<and> call_depth x \<le> kMaxRecursionDepth"
  by (erule ReadEntry_rel.cases) (simp_all add: call_depth_def)

lemma ReadEntry_rel_kind:
  "ReadEntry_rel y x \<Longrightarrow>
     (call_visited y = None \<and> call_ordinal y = 0) \<or>
     (call_visited y \<noteq> None \<and> call_buffer y = call_buffer x \<and> call_ordinal y \<noteq> 0 \<and>
      (call_ordinal y = node_l (call_record x) \<or> call_ordinal y = node_r (call_record x)))"
  by (erule ReadEntry_rel.cases)
     (simp_all add: call_visited_def call_ordinal_def call_buffer_def call_record_def)

lemma ReadEntry_rel_wf: "wfP ReadEntry_rel"
proof -
  have "(y, x) \<in> measure (\<lambda>c. 257 - call_depth c)" if "ReadEntry_rel y x" for y x
    using ReadEntry_rel_depth [OF that] by (auto simp add: kMaxRecursionDepth_def)
  then have "{(y, x). ReadEntry_rel y x} \<subseteq> measure (\<lambda>c. 257 - call_depth c)"
    by blast
  then have "wf {(y, x). ReadEntry_rel y x}"
    by (rule wf_subset [OF wf_measure])
  then show ?thesis by (simp add: wfp_def)
qed

lemma ReadEntry_fresh_set:
  "bs \<noteq> 0 \<Longrightarrow>
   ReadEntry st buffer ord parent bs depth None = ReadEntry st buffer ord parent bs depth (Some {})"
  by (subst (1 2) ReadEntry_unfold) (simp add: scope_def array_size_def)

lemma materialize_directory_children:
  "ucast (attributes_r r) AND kFileAttributeDirectory \<noteq> 0 \<Longrightarrow> length_r r \<noteq> 0 \<Longrightarrow>
   \<not> size_ps st < game_offset st + sector r * kXESectorSize \<Longrightarrow>
   children (materialize st r depth) =
     fst (snd (ReadEntry st (game_offset st + sector r * kXESectorSize) 0 [] (length_r r)
                 (depth + 1) (Some {})))"
  by (simp add: materialize_def Let_def ReadEntry_fresh_set)

lemma ReadEntry_root_nonempty:
  "fst (snd (ReadEntry st buffer ord [] bs depth v0)) \<noteq> [] \<longleftrightarrow>
   guards_pass st buffer ord bs depth v0"
proof (cases "guards_pass st buffer ord bs depth v0")
  case True
  then show ?thesis
    by (subst ReadEntry_pass_frame [OF True]) (simp add: Let_def)
next
  case False
  with ReadEntry_fail [OF False, of "[]"] show ?thesis by simp
qed

subsection \<open>Evaluation on the concrete trees\<close>

lemmas image_simps = bytes_at_def rec_bytes_def superblock_def zero_mem_def bytes_of_def
  magic_bytes

lemmas load_simps = read_record_def load_u16_def load_u32_def load_u8_def

lemmas entry_simps = Let_def kMaxRecursionDepth_def kMinEntrySize_def kXESectorSize_def
  Create_def kFileAttributeDirectory_def kFileAttributeReadOnly_def round_up_def
  bytes_per_sector_def

lemma cycle_records:
  "read_record cycle_state 67584 =
     \<lparr>node_l = 0, node_r = 5, sector = 34, length_r = 5, attributes_r = 0,
      name_length = 1, name_buffer = [65]\<rparr>"
  "read_record cycle_state 67604 =
     \<lparr>node_l = 5, node_r = 10, sector = 34, length_r = 3, attributes_r = 0,
      name_length = 1, name_buffer = [66]\<rparr>"
  "read_record cycle_state 67624 =
     \<lparr>node_l = 0, node_r = 0, sector = 35, length_r = 7, attributes_r = 0,
      name_length = 1, name_buffer = [67]\<rparr>"
  by (simp_all add: cycle_state_def cycle_image_def load_simps image_simps)

lemma cycle_state_fields:
  "root_size cycle_state = 2048" "size_ps cycle_state = 73728" "game_offset cycle_state = 0"
  "root_offset cycle_state = 67584"
  by (simp_all add: cycle_state_def)

lemma cycle_decode:
  "ReadEntry cycle_state 67584 0 [] 0 0 None =
     (True, [file_entry ''A'' 5 69632, file_entry ''B'' 3 69632, file_entry ''C'' 7 71680],
      {0, 5, 10})"
  by (simp add: ReadEntry.simps cycle_records cycle_state_fields entry_simps file_entry_def
      bytes_of_def insert_commute)

lemma Verify_eval:
  assumes "VerifyMagic (state_of m n) 65536"
  shows "Verify (state_of m n) =
    (let rsec = unat (load_u32 (state_of m n) 65556);
         rsize = unat (load_u32 (state_of m n) 65560);
         st = \<lparr>ptr = m, size_ps = n, game_offset = 0, root_sector = rsec,
               root_offset = rsec * 2048, root_size = rsize\<rparr>
     in if rsize < 13 \<or> rsize > 32 * 1024 * 1024 \<or> rsec * 2048 \<ge> n \<or> rsec * 2048 + rsize > n
        then (kErrorDamagedFile, st) else (kSuccess, st))"
proof -
  have f: "find_magic (state_of m n) likely_offsets = (True, state_of m n)"
    using assms by (simp add: likely_offsets_def Let_def state_of_def)
  from VerifyMagic_lt [OF assms] have "65536 < n" by (simp add: state_of_def)
  then show ?thesis
    unfolding Verify_def f
    by (auto simp add: Let_def kXESectorSize_def state_of_def load_u32_def)
qed

lemma cycle_magic: "VerifyMagic (state_of cycle_image 73728) 65536"
  by (simp add: VerifyMagic_def state_of_def cycle_image_def upt20 image_simps)

lemma cycle_Verify: "Verify (state_of cycle_image 73728) = (kSuccess, cycle_state)"
  by (simp add: Verify_eval [OF cycle_magic])
     (simp add: state_of_def load_u32_def cycle_image_def image_simps cycle_state_def)

lemma cycle_guards_0: "guards_pass cycle_state 67584 0 0 0 None"
  by (simp add: guards_pass_def Let_def array_size_def scope_def cycle_records
      cycle_state_fields kMaxRecursionDepth_def kMinEntrySize_def)

lemma cycle_guards_5: "guards_pass cycle_state 67584 5 2048 1 (Some {0})"
  by (simp add: guards_pass_def Let_def array_size_def scope_def cycle_records
      kMaxRecursionDepth_def kMinEntrySize_def)

lemma cycle_node_l_5:
  "node_l (read_record cycle_state (67584 + unat (5 :: u16) * 4)) \<in> insert 5 (scope (Some {0}))"
  by (simp add: cycle_records)

lemma cycle_right_of_5:
  "descend cycle_state 67584 10 [] 2048 (Suc 0) {5, 0} =
     ([file_entry ''C'' 7 71680], {10, 5, 0})"
  by (simp add: descend_def ReadEntry.simps cycle_records cycle_state_fields entry_simps
      file_entry_def bytes_of_def)

lemma cycle_materialize_5:
  "materialize cycle_state
     \<lparr>node_l = 5, node_r = 10, sector = 34, length_r = 3, attributes_r = 0,
      name_length = 1, name_buffer = [66]\<rparr> (Suc 0) = file_entry ''B'' 3 69632"
  by (simp add: materialize_def cycle_records cycle_state_fields entry_simps file_entry_def
      bytes_of_def)

lemma cycle_guards_10: "guards_pass cycle_state 67584 10 2048 2 (Some {5, 0})"
  by (simp add: guards_pass_def Let_def array_size_def scope_def cycle_records
      kMaxRecursionDepth_def kMinEntrySize_def)

lemma cycle_materialize_10:
  "materialize cycle_state
     \<lparr>node_l = 0, node_r = 0, sector = 35, length_r = 7, attributes_r = 0,
      name_length = 1, name_buffer = [67]\<rparr> 2 = file_entry ''C'' 7 71680"
  by (simp add: materialize_def cycle_state_fields entry_simps file_entry_def bytes_of_def)

lemma tiny_root_Verify: "Verify (state_of tiny_root_image 73728) = (kSuccess, tiny_root_state)"
proof -
  have m: "VerifyMagic (state_of tiny_root_image 73728) 65536"
    by (simp add: VerifyMagic_def state_of_def tiny_root_image_def upt20 image_simps)
  show ?thesis
    by (simp add: Verify_eval [OF m])
       (simp add: state_of_def load_u32_def tiny_root_image_def image_simps tiny_root_state_def)
qed

lemma tiny_root_guards: "\<not> guards_pass tiny_root_state 67584 0 0 0 None"
  by (simp add: guards_pass_def Let_def array_size_def scope_def tiny_root_state_def
      kMaxRecursionDepth_def kMinEntrySize_def)

lemma dir_at_end_Verify:
  "Verify (state_of dir_at_end_image 69632) = (kSuccess, dir_at_end_state)"
proof -
  have m: "VerifyMagic (state_of dir_at_end_image 69632) 65536"
    by (simp add: VerifyMagic_def state_of_def dir_at_end_image_def upt20 image_simps)
  show ?thesis
    by (simp add: Verify_eval [OF m])
       (simp add: state_of_def load_u32_def dir_at_end_image_def image_simps
          dir_at_end_state_def)
qed

lemma file_at_end_Verify:
  "Verify (state_of file_at_end_image 69632) = (kSuccess, file_at_end_state)"
proof -
  have m: "VerifyMagic (state_of file_at_end_image 69632) 65536"
    by (simp add: VerifyMagic_def state_of_def file_at_end_image_def upt20 image_simps)
  show ?thesis
    by (simp add: Verify_eval [OF m])
       (simp add: state_of_def load_u32_def file_at_end_image_def image_simps
          file_at_end_state_def)
qed

lemma dir_at_end_records:
  "read_record dir_at_end_state 67584 =
     \<lparr>node_l = 0, node_r = 0, sector = 34, length_r = 2048, attributes_r = 16,
      name_length = 1, name_buffer = [68]\<rparr>"
  "read_record dir_at_end_state 69632 =
     \<lparr>node_l = 0, node_r = 0, sector = 0, length_r = 0, attributes_r = 0,
      name_length = 0, name_buffer = []\<rparr>"
  by (simp_all add: dir_at_end_state_def dir_at_end_image_def load_simps image_simps)

lemma file_at_end_records:
  "read_record file_at_end_state 67584 =
     \<lparr>node_l = 0, node_r = 0, sector = 34, length_r = 2048, attributes_r = 0,
      name_length = 1, name_buffer = [70]\<rparr>"
  by (simp_all add: file_at_end_state_def file_at_end_image_def load_simps image_simps)

lemma at_end_fields:
  "root_size dir_at_end_state = 2048" "size_ps dir_at_end_state = 69632"
  "game_offset dir_at_end_state = 0" "root_offset dir_at_end_state = 67584"
  "root_size file_at_end_state = 2048" "size_ps file_at_end_state = 69632"
  "game_offset file_at_end_state = 0" "root_offset file_at_end_state = 67584"
  by (simp_all add: dir_at_end_state_def file_at_end_state_def)

subsection \<open>Termination and containment of failures\<close>

text \<open>
  C1. Decoding terminates on every input: the relation between a call of
  \<^verbatim>\<open>ReadEntry\<close> and the calls it makes is well-founded, every such call is one level
  deeper, and only calls at depth 256 or less make any. A call at a depth above 256
  returns false and leaves the parent's children as they are, and so does a call for an
  ordinal that is already in the visited set of its array. The array of a subdirectory
  is decoded with a visited set of its own, which starts empty. A record that passes
  the guards is always materialised, whatever its subtrees do; in particular, when its
  left child is an ordinal already visited (itself, for a self-reference), the left
  subtree contributes nothing and the entry and its right subtree are decoded.
\<close>

theorem ReadEntry_terminates:
  "wfP ReadEntry_rel
   \<and> (\<forall>x y. ReadEntry_rel y x \<longrightarrow>
          call_depth y = call_depth x + 1 \<and> call_depth x \<le> 256)
   \<and> (\<forall>st buffer ord parent bs depth v0. 256 < depth \<longrightarrow>
          ReadEntry st buffer ord parent bs depth v0 = (False, parent, scope v0))
   \<and> (\<forall>st buffer ord parent bs depth v. ord \<in> v \<longrightarrow>
          ReadEntry st buffer ord parent bs depth (Some v) = (False, parent, v))
   \<and> (\<forall>st buffer ord parent bs depth. bs \<noteq> 0 \<longrightarrow>
          ReadEntry st buffer ord parent bs depth None =
          ReadEntry st buffer ord parent bs depth (Some {}))
   \<and> (\<forall>st r depth.
          ucast (attributes_r r) AND kFileAttributeDirectory \<noteq> 0 \<longrightarrow> length_r r \<noteq> 0 \<longrightarrow>
          \<not> size_ps st < game_offset st + sector r * kXESectorSize \<longrightarrow>
          children (materialize st r depth) =
            fst (snd (ReadEntry st (game_offset st + sector r * kXESectorSize) 0 []
                        (length_r r) (depth + 1) (Some {}))))
   \<and> (\<forall>st buffer ord parent bs depth v0.
          guards_pass st buffer ord bs depth v0 \<longrightarrow>
          (\<exists>left right vis.
             ReadEntry st buffer ord parent bs depth v0 =
               (True,
                parent @ left @
                  [materialize st (read_record st (buffer + unat ord * 4)) depth] @ right,
                vis)))
   \<and> (\<forall>st buffer ord parent bs depth v0.
          guards_pass st buffer ord bs depth v0 \<longrightarrow>
          node_l (read_record st (buffer + unat ord * 4)) \<in> insert ord (scope v0) \<longrightarrow>
          ReadEntry st buffer ord parent bs depth v0 =
            (let r = read_record st (buffer + unat ord * 4);
                 rt = descend st buffer (node_r r) [] (array_size st bs v0) depth
                        (insert ord (scope v0))
             in (True, parent @ [materialize st r depth] @ fst rt, snd rt)))"
proof (intro conjI allI impI)
  show "wfP ReadEntry_rel" by (rule ReadEntry_rel_wf)
next
  fix x y assume "ReadEntry_rel y x"
  from ReadEntry_rel_depth [OF this]
  show "call_depth y = call_depth x + 1" and "call_depth x \<le> 256"
    by (simp_all add: kMaxRecursionDepth_def)
next
  fix st :: ParseState and buffer :: nat and ord :: u16 and parent :: "entry list"
    and bs :: nat and depth :: nat and v0 :: "u16 set option"
  assume "256 < depth"
  then show "ReadEntry st buffer ord parent bs depth v0 = (False, parent, scope v0)"
    by (intro ReadEntry_depth_cap) (simp add: kMaxRecursionDepth_def)
next
  fix st :: ParseState and buffer :: nat and ord :: u16 and parent :: "entry list"
    and bs :: nat and depth :: nat and v :: "u16 set"
  assume "ord \<in> v"
  then show "ReadEntry st buffer ord parent bs depth (Some v) = (False, parent, v)"
    by (rule ReadEntry_revisit)
next
  fix st :: ParseState and buffer :: nat and ord :: u16 and parent :: "entry list"
    and bs :: nat and depth :: nat
  assume "bs \<noteq> 0"
  then show "ReadEntry st buffer ord parent bs depth None =
          ReadEntry st buffer ord parent bs depth (Some {})"
    by (rule ReadEntry_fresh_set)
next
  fix st :: ParseState and r :: dir_record and depth :: nat
  assume "ucast (attributes_r r) AND kFileAttributeDirectory \<noteq> 0" "length_r r \<noteq> 0"
    "\<not> size_ps st < game_offset st + sector r * kXESectorSize"
  then show "children (materialize st r depth) =
            fst (snd (ReadEntry st (game_offset st + sector r * kXESectorSize) 0 []
                        (length_r r) (depth + 1) (Some {})))"
    by (rule materialize_directory_children)
next
  fix st :: ParseState and buffer :: nat and ord :: u16 and parent :: "entry list"
    and bs :: nat and depth :: nat and v0 :: "u16 set option"
  assume g: "guards_pass st buffer ord bs depth v0"
  show "\<exists>left right vis.
             ReadEntry st buffer ord parent bs depth v0 =
               (True,
                parent @ left @
                  [materialize st (read_record st (buffer + unat ord * 4)) depth] @ right,
                vis)"
    by (subst ReadEntry_pass_frame [OF g]) (simp add: Let_def, blast)
next
  fix st :: ParseState and buffer :: nat and ord :: u16 and parent :: "entry list"
    and bs :: nat and depth :: nat and v0 :: "u16 set option"
  assume g: "guards_pass st buffer ord bs depth v0"
    and c: "node_l (read_record st (buffer + unat ord * 4)) \<in> insert ord (scope v0)"
  have "descend st buffer (node_l (read_record st (buffer + unat ord * 4))) []
          (array_size st bs v0) depth (insert ord (scope v0)) = ([], insert ord (scope v0))"
    by (rule descend_stop) (use c in blast)
  then show "ReadEntry st buffer ord parent bs depth v0 =
            (let r = read_record st (buffer + unat ord * 4);
                 rt = descend st buffer (node_r r) [] (array_size st bs v0) depth
                        (insert ord (scope v0))
             in (True, parent @ [materialize st r depth] @ fst rt, snd rt))"
    by (subst ReadEntry_pass_frame [OF g]) (simp add: Let_def)
qed

text \<open>
  The theorem at the tree of \<open>cycle_state\<close>: the record "B" at ordinal 5 names
  itself as left child. Its decoding returns "B" and "C" behind "A"; the call for the
  self-reference returns false at once, and so does a call at depth 257.
\<close>

theorem ReadEntry_terminates_witness:
  "guards_pass cycle_state 67584 5 2048 1 (Some {0}) \<and>
   node_l (read_record cycle_state (67584 + unat (5 :: u16) * 4)) = 5 \<and>
   ReadEntry cycle_state 67584 5 [file_entry ''A'' 5 69632] 2048 1 (Some {0}) =
     (True, [file_entry ''A'' 5 69632, file_entry ''B'' 3 69632, file_entry ''C'' 7 71680],
      {10, 5, 0}) \<and>
   ReadEntry cycle_state 67584 5 [] 2048 2 (Some {5, 0}) = (False, [], {5, 0}) \<and>
   ReadEntry cycle_state 67584 0 [] 0 257 None = (False, [], {})"
proof -
  note T = ReadEntry_terminates
  note T3 = conjunct1 [OF conjunct2 [OF conjunct2 [OF T]]]
  note T4 = conjunct1 [OF conjunct2 [OF conjunct2 [OF conjunct2 [OF T]]]]
  note T8 = conjunct2 [OF conjunct2 [OF conjunct2 [OF conjunct2 [OF conjunct2
              [OF conjunct2 [OF conjunct2 [OF T]]]]]]]
  have a: "ReadEntry cycle_state 67584 0 [] 0 257 None = (False, [], {})"
    using T3 [rule_format, of 257 cycle_state 67584 0 "[]" 0 None] by (simp add: scope_def)
  have b: "ReadEntry cycle_state 67584 5 [] 2048 2 (Some {5, 0}) = (False, [], {5, 0})"
    using T4 [rule_format, of 5 "{5, 0}" cycle_state 67584 "[]" 2048 2] by simp
  have c: "ReadEntry cycle_state 67584 5 [file_entry ''A'' 5 69632] 2048 1 (Some {0}) =
     (True, [file_entry ''A'' 5 69632, file_entry ''B'' 3 69632, file_entry ''C'' 7 71680],
      {10, 5, 0})"
    using T8 [rule_format, OF cycle_guards_5 cycle_node_l_5, of "[file_entry ''A'' 5 69632]"]
    by (simp add: Let_def cycle_records array_size_def scope_def cycle_right_of_5
        cycle_materialize_5)
  have d: "node_l (read_record cycle_state (67584 + unat (5 :: u16) * 4)) = 5"
    by (simp add: cycle_records)
  from cycle_guards_5 d c b a show ?thesis by (intro conjI)
qed

subsection \<open>A zero child ordinal\<close>

text \<open>
  C10. A call that \<^verbatim>\<open>ReadEntry\<close> makes within an array is made for a nonzero
  ordinal, \<^verbatim>\<open>node_l\<close> or \<^verbatim>\<open>node_r\<close> of the record; the only calls for ordinal 0 are
  those that enter the array of a subdirectory. So for a record that passes the guards:
  with \<^verbatim>\<open>node_l\<close> zero its entry directly follows the children that were there, with
  \<^verbatim>\<open>node_r\<close> zero its entry is the last one appended, and with both zero exactly its
  entry is appended and only its ordinal is added to the visited set.
\<close>

theorem ReadEntry_zero_means_no_child:
  "(\<forall>x y. ReadEntry_rel y x \<longrightarrow>
       (call_visited y = None \<and> call_ordinal y = 0) \<or>
       (call_visited y \<noteq> None \<and> call_buffer y = call_buffer x \<and> call_ordinal y \<noteq> 0 \<and>
        (call_ordinal y = node_l (call_record x) \<or> call_ordinal y = node_r (call_record x))))
   \<and> (\<forall>st buffer ord parent bs depth v0.
          guards_pass st buffer ord bs depth v0 \<longrightarrow>
          node_l (read_record st (buffer + unat ord * 4)) = 0 \<longrightarrow>
          ReadEntry st buffer ord parent bs depth v0 =
            (let r = read_record st (buffer + unat ord * 4);
                 rt = descend st buffer (node_r r) [] (array_size st bs v0) depth
                        (insert ord (scope v0))
             in (True, parent @ [materialize st r depth] @ fst rt, snd rt)))
   \<and> (\<forall>st buffer ord parent bs depth v0.
          guards_pass st buffer ord bs depth v0 \<longrightarrow>
          node_r (read_record st (buffer + unat ord * 4)) = 0 \<longrightarrow>
          ReadEntry st buffer ord parent bs depth v0 =
            (let r = read_record st (buffer + unat ord * 4);
                 l = descend st buffer (node_l r) [] (array_size st bs v0) depth
                       (insert ord (scope v0))
             in (True, parent @ fst l @ [materialize st r depth], snd l)))
   \<and> (\<forall>st buffer ord parent bs depth v0.
          guards_pass st buffer ord bs depth v0 \<longrightarrow>
          node_l (read_record st (buffer + unat ord * 4)) = 0 \<longrightarrow>
          node_r (read_record st (buffer + unat ord * 4)) = 0 \<longrightarrow>
          ReadEntry st buffer ord parent bs depth v0 =
            (True,
             parent @ [materialize st (read_record st (buffer + unat ord * 4)) depth],
             insert ord (scope v0)))"
proof (intro conjI allI impI)
  fix x y assume "ReadEntry_rel y x"
  then show "(call_visited y = None \<and> call_ordinal y = 0) \<or>
       (call_visited y \<noteq> None \<and> call_buffer y = call_buffer x \<and> call_ordinal y \<noteq> 0 \<and>
        (call_ordinal y = node_l (call_record x) \<or> call_ordinal y = node_r (call_record x)))"
    by (rule ReadEntry_rel_kind)
next
  fix st :: ParseState and buffer :: nat and ord :: u16 and parent :: "entry list"
    and bs :: nat and depth :: nat and v0 :: "u16 set option"
  assume g: "guards_pass st buffer ord bs depth v0"
    and l: "node_l (read_record st (buffer + unat ord * 4)) = 0"
  show "ReadEntry st buffer ord parent bs depth v0 =
            (let r = read_record st (buffer + unat ord * 4);
                 rt = descend st buffer (node_r r) [] (array_size st bs v0) depth
                        (insert ord (scope v0))
             in (True, parent @ [materialize st r depth] @ fst rt, snd rt))"
    by (subst ReadEntry_pass_frame [OF g]) (simp add: Let_def l descend_stop)
next
  fix st :: ParseState and buffer :: nat and ord :: u16 and parent :: "entry list"
    and bs :: nat and depth :: nat and v0 :: "u16 set option"
  assume g: "guards_pass st buffer ord bs depth v0"
    and r: "node_r (read_record st (buffer + unat ord * 4)) = 0"
  show "ReadEntry st buffer ord parent bs depth v0 =
            (let r = read_record st (buffer + unat ord * 4);
                 l = descend st buffer (node_l r) [] (array_size st bs v0) depth
                       (insert ord (scope v0))
             in (True, parent @ fst l @ [materialize st r depth], snd l))"
    by (subst ReadEntry_pass_frame [OF g]) (simp add: Let_def r descend_stop)
next
  fix st :: ParseState and buffer :: nat and ord :: u16 and parent :: "entry list"
    and bs :: nat and depth :: nat and v0 :: "u16 set option"
  assume g: "guards_pass st buffer ord bs depth v0"
    and l: "node_l (read_record st (buffer + unat ord * 4)) = 0"
    and r: "node_r (read_record st (buffer + unat ord * 4)) = 0"
  show "ReadEntry st buffer ord parent bs depth v0 =
            (True,
             parent @ [materialize st (read_record st (buffer + unat ord * 4)) depth],
             insert ord (scope v0))"
    by (subst ReadEntry_pass_frame [OF g]) (simp add: Let_def l r descend_stop)
qed

text \<open>
  The theorem at the record "C" of \<open>cycle_state\<close>, whose child ordinals are both
  zero.
\<close>

theorem ReadEntry_zero_means_no_child_witness:
  "guards_pass cycle_state 67584 10 2048 2 (Some {5, 0}) \<and>
   node_l (read_record cycle_state (67584 + unat (10 :: u16) * 4)) = 0 \<and>
   node_r (read_record cycle_state (67584 + unat (10 :: u16) * 4)) = 0 \<and>
   ReadEntry cycle_state 67584 10 [] 2048 2 (Some {5, 0}) =
     (True, [file_entry ''C'' 7 71680], {10, 5, 0})"
proof -
  note T4 = conjunct2 [OF conjunct2 [OF conjunct2 [OF ReadEntry_zero_means_no_child]]]
  have l: "node_l (read_record cycle_state (67584 + unat (10 :: u16) * 4)) = 0"
    and r: "node_r (read_record cycle_state (67584 + unat (10 :: u16) * 4)) = 0"
    by (simp_all add: cycle_records)
  have "ReadEntry cycle_state 67584 10 [] 2048 2 (Some {5, 0}) =
     (True, [file_entry ''C'' 7 71680], {10, 5, 0})"
    using T4 [rule_format, OF cycle_guards_10 l r, of "[]"]
    by (simp add: cycle_records scope_def cycle_materialize_10)
  with cycle_guards_10 l r show ?thesis by (intro conjI)
qed


subsection \<open>ReadAllEntries\<close>

lemma fold_total_entries_le:
  "(\<And>x k. x \<in> set es \<Longrightarrow> total_entries k < total_entries (f x k)) \<Longrightarrow>
   total_entries k \<le> total_entries (fold f es k)"
proof (induction es arbitrary: k)
  case Nil
  then show ?case by simp
next
  case (Cons e es)
  have "total_entries k < total_entries (f e k)" by (rule Cons.prems) simp
  moreover have "total_entries (f e k) \<le> total_entries (fold f es (f e k))"
    by (rule Cons.IH) (simp add: Cons.prems)
  ultimately show ?case by simp
qed

lemma count_entries_increases:
  "total_entries k < total_entries (count_entries e k)"
proof (induction e k rule: count_entries.induct)
  case (1 f cs k)
  show ?case
  proof (cases "attributes f AND kFileAttributeDirectory \<noteq> 0")
    case True
    let ?k = "k\<lparr>total_entries := total_entries k + 1, total_dirs := total_dirs k + 1\<rparr>"
    have "total_entries ?k \<le> total_entries (fold count_entries cs ?k)"
      by (rule fold_total_entries_le) (rule "1.IH" [OF refl True])
    then show ?thesis using True by (simp add: Let_def)
  next
    case False
    then show ?thesis by (simp add: Let_def)
  qed
qed

lemma fold_count_entries_zero:
  "total_entries (fold count_entries es \<lparr>total_entries = 0, total_files = 0, total_dirs = 0\<rparr>) = 0
     \<longleftrightarrow> es = []"
proof (cases es)
  case Nil
  then show ?thesis by simp
next
  case (Cons e es')
  let ?k0 = "\<lparr>total_entries = 0, total_files = 0, total_dirs = 0\<rparr>"
  have "total_entries ?k0 < total_entries (count_entries e ?k0)"
    by (rule count_entries_increases)
  moreover have "total_entries (count_entries e ?k0) \<le> total_entries (fold count_entries es' (count_entries e ?k0))"
    by (rule fold_total_entries_le) (rule count_entries_increases)
  ultimately show ?thesis using Cons by simp
qed

text \<open>
  C5. \<^verbatim>\<open>ReadAllEntries\<close> returns success exactly when the root entry has a child,
  and the out-of-memory error exactly when it has none; the root has no child exactly
  when the count of entries in the tree is zero. The children are what \<^verbatim>\<open>ReadEntry\<close>
  appended, whatever flag it returned: the result is success exactly when the first
  record of the root array passes the guards, however its subtrees fare. After a
  successful \<^verbatim>\<open>Verify\<close>, \<^verbatim>\<open>Initialize\<close> returns true exactly when
  \<^verbatim>\<open>ReadAllEntries\<close> succeeds.
\<close>

theorem ReadAllEntries_success_iff_entries:
  "(fst (ReadAllEntries st root_buffer) = kSuccess \<longleftrightarrow>
      children (snd (ReadAllEntries st root_buffer)) \<noteq> [])
   \<and> (fst (ReadAllEntries st root_buffer) = kErrorOutOfMemory \<longleftrightarrow>
      children (snd (ReadAllEntries st root_buffer)) = [])
   \<and> (children (snd (ReadAllEntries st root_buffer)) = [] \<longleftrightarrow>
      entry_count (children (snd (ReadAllEntries st root_buffer))) = 0)
   \<and> children (snd (ReadAllEntries st root_buffer)) =
       fst (snd (ReadEntry st root_buffer 0 [] 0 0 None))
   \<and> (fst (ReadAllEntries st root_buffer) = kSuccess \<longleftrightarrow>
       guards_pass st root_buffer 0 0 0 None)
   \<and> (\<forall>mmap n st'. Verify (state_of mmap n) = (kSuccess, st') \<longrightarrow>
         fst (Initialize_mapped mmap n) =
           (fst (ReadAllEntries st' (root_offset st')) = kSuccess))"
proof -
  define cs where "cs = fst (snd (ReadEntry st root_buffer 0 [] 0 0 None))"
  have R: "ReadAllEntries st root_buffer =
      (if cs = [] then kErrorOutOfMemory else kSuccess, Entry root_fields cs)"
    using fold_count_entries_zero [of cs]
    by (simp add: ReadAllEntries_def Let_def cs_def [symmetric])
  have I: "fst (Initialize_mapped mmap n) =
           (fst (ReadAllEntries st' (root_offset st')) = kSuccess)"
    if "Verify (state_of mmap n) = (kSuccess, st')" for mmap n st'
    using that by (simp add: Initialize_mapped_def state_of_def Let_def split: prod.splits)
  have G: "guards_pass st root_buffer 0 0 0 None \<longleftrightarrow> cs \<noteq> []"
    using ReadEntry_root_nonempty [of st root_buffer 0 0 0 None] by (simp add: cs_def)
  from I show ?thesis
    by (simp add: R G cs_def [symmetric] entry_count_def fold_count_entries_zero)
qed

text \<open>
  The theorem at two images: the tree of \<open>cycle_state\<close>, where the subtree of the
  self-reference fails and three entries are decoded, and an image whose root array is
  too short for a record.
\<close>

theorem ReadAllEntries_success_iff_entries_witness:
  "Verify (state_of cycle_image 73728) = (kSuccess, cycle_state) \<and>
   fst (ReadEntry cycle_state 67584 5 [] 2048 2 (Some {5, 0})) = False \<and>
   children (snd (ReadAllEntries cycle_state 67584)) =
     [file_entry ''A'' 5 69632, file_entry ''B'' 3 69632, file_entry ''C'' 7 71680] \<and>
   fst (ReadAllEntries cycle_state 67584) = kSuccess \<and>
   fst (Initialize_mapped cycle_image 73728) = True \<and>
   Verify (state_of tiny_root_image 73728) = (kSuccess, tiny_root_state) \<and>
   children (snd (ReadAllEntries tiny_root_state 67584)) = [] \<and>
   fst (ReadAllEntries tiny_root_state 67584) = kErrorOutOfMemory \<and>
   fst (Initialize_mapped tiny_root_image 73728) = False"
proof -
  note C = ReadAllEntries_success_iff_entries [of cycle_state 67584]
  note T = ReadAllEntries_success_iff_entries [of tiny_root_state 67584]
  have c1: "children (snd (ReadAllEntries cycle_state 67584)) =
     [file_entry ''A'' 5 69632, file_entry ''B'' 3 69632, file_entry ''C'' 7 71680]"
    using C by (simp add: cycle_decode)
  have c2: "fst (ReadAllEntries cycle_state 67584) = kSuccess"
    using C cycle_guards_0 by blast
  have c3: "fst (Initialize_mapped cycle_image 73728) = True"
    using C cycle_Verify c2 by (simp add: cycle_state_fields)
  have t2: "fst (ReadAllEntries tiny_root_state 67584) \<noteq> kSuccess"
    using T tiny_root_guards by blast
  then have t1: "children (snd (ReadAllEntries tiny_root_state 67584)) = []"
    using T by blast
  then have t2': "fst (ReadAllEntries tiny_root_state 67584) = kErrorOutOfMemory"
    using T by blast
  have t3: "fst (Initialize_mapped tiny_root_image 73728) = False"
    using T tiny_root_Verify t2 by (simp add: tiny_root_state_def)
  have f: "fst (ReadEntry cycle_state 67584 5 [] 2048 2 (Some {5, 0})) = False"
    by (simp add: ReadEntry_revisit)
  from cycle_Verify f c1 c2 c3 tiny_root_Verify t1 t2' t3 show ?thesis by (intro conjI)
qed

subsection \<open>Data at the end of the image\<close>

text \<open>
  C2 fails for a directory whose data offset equals the size of the image. In
  \<open>dir_at_end_image\<close> the directory "D" has its array at offset 69632, the size of
  the file. \<^verbatim>\<open>ReadEntry\<close> keeps its size of 2048 and decodes a record from the bytes
  behind the file, which becomes a child with an empty name. The file "F" at the same
  offset in \<open>file_at_end_image\<close> has its size and data length set to zero.
\<close>

theorem ReadEntry_directory_at_image_end:
  "game_offset dir_at_end_state + sector (read_record dir_at_end_state 67584) * 2048 =
     size_ps dir_at_end_state \<and>
   Initialize_mapped dir_at_end_image 69632 =
     (True, Some (Entry root_fields
        [Entry \<lparr>name = bytes_of ''D'', attributes = 0x11, size_e = 2048,
                 allocation_size = 2048, create_timestamp = kEpoch,
                 access_timestamp = kEpoch, write_timestamp = kEpoch,
                 data_offset = 0, data_size = 0\<rparr>
           [file_entry '''' 0 0]])) \<and>
   game_offset file_at_end_state + sector (read_record file_at_end_state 67584) * 2048 =
     size_ps file_at_end_state \<and>
   Initialize_mapped file_at_end_image 69632 =
     (True, Some (Entry root_fields [Entry \<lparr>name = bytes_of ''F'', attributes = 1, size_e = 0,
                 allocation_size = 2048, create_timestamp = kEpoch,
                 access_timestamp = kEpoch, write_timestamp = kEpoch,
                 data_offset = 0, data_size = 0\<rparr> []]))"
proof -
  have d: "ReadEntry dir_at_end_state 67584 0 [] 0 0 None =
      (True, [Entry \<lparr>name = bytes_of ''D'', attributes = 0x11, size_e = 2048,
                 allocation_size = 2048, create_timestamp = kEpoch,
                 access_timestamp = kEpoch, write_timestamp = kEpoch,
                 data_offset = 0, data_size = 0\<rparr>
           [file_entry '''' 0 0]], {0})"
    by (simp add: ReadEntry.simps dir_at_end_records at_end_fields entry_simps file_entry_def
        bytes_of_def)
  have f: "ReadEntry file_at_end_state 67584 0 [] 0 0 None =
      (True, [Entry \<lparr>name = bytes_of ''F'', attributes = 1, size_e = 0,
                 allocation_size = 2048, create_timestamp = kEpoch,
                 access_timestamp = kEpoch, write_timestamp = kEpoch,
                 data_offset = 0, data_size = 0\<rparr> []], {0})"
    by (simp add: ReadEntry.simps file_at_end_records at_end_fields entry_simps file_entry_def
        bytes_of_def)
  have D: "Initialize_mapped dir_at_end_image 69632 =
     (True, Some (Entry root_fields
        [Entry \<lparr>name = bytes_of ''D'', attributes = 0x11, size_e = 2048,
                 allocation_size = 2048, create_timestamp = kEpoch,
                 access_timestamp = kEpoch, write_timestamp = kEpoch,
                 data_offset = 0, data_size = 0\<rparr>
           [file_entry '''' 0 0]]))"
    using dir_at_end_Verify
    by (simp add: Initialize_mapped_def state_of_def ReadAllEntries_def at_end_fields d Let_def
        kFileAttributeDirectory_def file_entry_def)
  have F: "Initialize_mapped file_at_end_image 69632 =
     (True, Some (Entry root_fields [Entry \<lparr>name = bytes_of ''F'', attributes = 1, size_e = 0,
                 allocation_size = 2048, create_timestamp = kEpoch,
                 access_timestamp = kEpoch, write_timestamp = kEpoch,
                 data_offset = 0, data_size = 0\<rparr> []]))"
    using file_at_end_Verify
    by (simp add: Initialize_mapped_def state_of_def ReadAllEntries_def at_end_fields f Let_def
        kFileAttributeDirectory_def file_entry_def)
  from D F show ?thesis
    by (simp add: dir_at_end_records file_at_end_records at_end_fields)
qed

section \<open>Properties of the retry loop\<close>

declare ReadWithRetry_loop.simps [simp del]





lemma DetectInterference_update [simp]:
  "DetectInterference (rd\<lparr>total_retries := x\<rparr>) t n = DetectInterference rd t n"
  "DetectInterference (rd\<lparr>interference_count := y\<rparr>) t n = DetectInterference rd t n"
  "DetectInterference (rd\<lparr>recovered_errors := z\<rparr>) t n = DetectInterference rd t n"
  by (simp_all add: DetectInterference_def)

lemma WaitBeforeRetry_opens [simp]: "opens (WaitBeforeRetry rd r w) = opens w"
  by (simp add: WaitBeforeRetry_def Let_def)

lemma config_reader_after [simp]: "config (reader_after rd retry a) = config rd"
  by (simp add: reader_after_def Let_def split: attempt.splits)














text \<open>
  C6 fails on the code. \<^verbatim>\<open>RequiresRetry\<close> does not list \<^verbatim>\<open>FileNotFound\<close> and
  \<^verbatim>\<open>Unknown\<close>, but the loop does not ask it: with the default configuration a file
  that never opens is opened six times, with five retries counted and five sleeps, and
  so is a file on which every attempt throws.
\<close>

theorem ReadWithRetry_retries_non_retryable:
  "\<not> RequiresRetry \<lparr>error = FileNotFound, message = ''Could not open file'',
      bytes_processed = 0, retry_count = 0, recovered = False\<rparr> \<and>
   ReadWithRetry never_opens uninit0 reader0 world0 =
     (\<lparr>error = FileNotFound, message = ''Could not open file'', bytes_processed = 0,
       retry_count = 5, recovered = False\<rparr>,
      reader0\<lparr>total_retries := 5\<rparr>,
      \<lparr>opens = 6, slept = [100, 200, 400, 800, 1600]\<rparr>) \<and>
   \<not> RequiresRetry \<lparr>error = Unknown, message = ''bad_alloc'',
      bytes_processed = 0, retry_count = 0, recovered = False\<rparr> \<and>
   ReadWithRetry always_throws uninit0 reader0 world0 =
     (\<lparr>error = Unknown, message = ''bad_alloc'', bytes_processed = 0,
       retry_count = 5, recovered = False\<rparr>,
      reader0\<lparr>total_retries := 5\<rparr>,
      \<lparr>opens = 6, slept = [100, 200, 400, 800, 1600]\<rparr>)"
  by (simp add: RequiresRetry_def ReadWithRetry_def ReadWithRetry_loop.simps never_opens_def
      always_throws_def reader0_def world0_def default_config_def WaitBeforeRetry_def int32_def
      Let_def)

section \<open>Properties of the chunked read\<close>



















end
